theory Spec2Isabelle
  imports Main "HOL-Library.Char_ord" "HOL-Library.List_Lexorder"
begin

section \<open>Python values and strings\<close>

text \<open>
  A Python \<^verbatim>\<open>str\<close> is modelled as a \<^typ>\<open>string\<close>: a list of code points below 256.
  The JSON-like values that an entry's content holds are \<^verbatim>\<open>None\<close>, booleans, strings,
  lists and string-keyed dicts; numbers are left out of the model.
\<close>

datatype pyval =
    PNone
  | PBool bool
  | PStr string
  | PList "pyval list"
  | PDict "(string \<times> pyval) list"

text \<open>\<^verbatim>\<open>str.lower()\<close> on code points below 256: A-Z and the Latin-1 capitals
  (192..222 without the multiplication sign 215) move up by 32.\<close>

definition lower_char :: "char \<Rightarrow> char" where
  "lower_char c =
     (let n = (of_char c :: nat) in
      if (65 \<le> n \<and> n \<le> 90) \<or> (192 \<le> n \<and> n \<le> 222 \<and> n \<noteq> 215)
      then char_of (n + 32) else c)"

definition str_lower :: "string \<Rightarrow> string" where
  "str_lower s = map lower_char s"

text \<open>\<^verbatim>\<open>q in s\<close> on strings: \<open>q\<close> occurs in \<open>s\<close> as a contiguous run.\<close>

fun str_in :: "string \<Rightarrow> string \<Rightarrow> bool" where
  "str_in q [] = (q = [])"
| "str_in q (c # s) = (take (length q) (c # s) = q \<or> str_in q s)"

text \<open>\<^verbatim>\<open>sep.join(parts)\<close>.\<close>

fun str_join :: "string \<Rightarrow> string list \<Rightarrow> string" where
  "str_join sep [] = []"
| "str_join sep [x] = x"
| "str_join sep (x # y # ys) = x @ sep @ str_join sep (y # ys)"

definition hex_digit :: "nat \<Rightarrow> char" where
  "hex_digit d = (if d < 10 then char_of (48 + d) else char_of (87 + d))"

text \<open>\<^verbatim>\<open>repr\<close> of a string: single quotes unless the text has a single quote and no
  double quote; backslash and the quote are escaped, tab, newline and return get their
  letter, every other unprintable code point is written \<^verbatim>\<open>\xNN\<close>.\<close>

definition repr_quote :: "string \<Rightarrow> char" where
  "repr_quote s = (if CHR 0x27 \<in> set s \<and> CHR 0x22 \<notin> set s then CHR 0x22 else CHR 0x27)"

definition repr_char :: "char \<Rightarrow> char \<Rightarrow> string" where
  "repr_char q c =
     (let n = (of_char c :: nat) in
      if c = q \<or> n = 92 then [CHR 0x5C, c]
      else if n = 9 then [CHR 0x5C, CHR ''t'']
      else if n = 10 then [CHR 0x5C, CHR ''n'']
      else if n = 13 then [CHR 0x5C, CHR ''r'']
      else if n < 32 \<or> n = 127 \<or> (128 \<le> n \<and> n \<le> 160) \<or> n = 173
        then [CHR 0x5C, CHR ''x'', hex_digit (n div 16), hex_digit (n mod 16)]
      else [c])"

definition repr_str :: "string \<Rightarrow> string" where
  "repr_str s = (let q = repr_quote s in q # concat (map (repr_char q) s) @ [q])"

fun py_repr :: "pyval \<Rightarrow> string" where
  "py_repr PNone = ''None''"
| "py_repr (PBool b) = (if b then ''True'' else ''False'')"
| "py_repr (PStr s) = repr_str s"
| "py_repr (PList xs) = ''['' @ str_join '', '' (map py_repr xs) @ '']''"
| "py_repr (PDict kvs) =
     ''{'' @ str_join '', '' (map (\<lambda>kv. repr_str (fst kv) @ '': '' @ py_repr (snd kv)) kvs) @ ''}''"

text \<open>\<^verbatim>\<open>str(v)\<close>: a string is its own string form, everything else prints as its repr.\<close>

fun py_str :: "pyval \<Rightarrow> string" where
  "py_str (PStr s) = s"
| "py_str v = py_repr v"

section \<open>Wall-clock readings\<close>

text \<open>
  A value of \<^verbatim>\<open>datetime.now()\<close>: a naive local time with microseconds. Each call of
  \<^verbatim>\<open>datetime.now()\<close> in the source is one reading, and every operation below takes
  the readings it makes as arguments, in source order.
\<close>

record datetime =
  year :: nat
  month :: nat
  day :: nat
  hour :: nat
  minute :: nat
  second :: nat
  microsecond :: nat

text \<open>The field ranges of the \<^verbatim>\<open>datetime\<close> type (the day bound is the loosest one).\<close>

definition datetime_range :: "datetime \<Rightarrow> bool" where
  "datetime_range t \<longleftrightarrow>
     1 \<le> year t \<and> year t \<le> 9999 \<and> 1 \<le> month t \<and> month t \<le> 12 \<and>
     1 \<le> day t \<and> day t \<le> 31 \<and> hour t < 24 \<and> minute t < 60 \<and> second t < 60 \<and>
     microsecond t < 1000000"

text \<open>Comparison of two naive datetimes: lexicographic on the fields.\<close>

definition dt_key :: "datetime \<Rightarrow> nat list" where
  "dt_key t = [year t, month t, day t, hour t, minute t, second t, microsecond t]"

definition dt_le :: "datetime \<Rightarrow> datetime \<Rightarrow> bool" where
  "dt_le a b \<longleftrightarrow> dt_key a \<le> dt_key b"

definition dt_less :: "datetime \<Rightarrow> datetime \<Rightarrow> bool" where
  "dt_less a b \<longleftrightarrow> dt_key a < dt_key b"

definition digit_char :: "nat \<Rightarrow> char" where
  "digit_char d = char_of (48 + d)"

fun digits :: "nat \<Rightarrow> string" where
  "digits n = (if n < 10 then [digit_char n] else digits (n div 10) @ [digit_char (n mod 10)])"

declare digits.simps [simp del]

text \<open>The format \<^verbatim>\<open>%0wd\<close>: decimal, padded with zeros on the left up to width \<open>w\<close>.\<close>

definition fmt :: "nat \<Rightarrow> nat \<Rightarrow> string" where
  "fmt w n = replicate (w - length (digits n)) (CHR ''0'') @ digits n"

text \<open>\<^verbatim>\<open>isoformat()\<close>: the microseconds are printed only when they are not zero.\<close>

definition isoformat :: "datetime \<Rightarrow> string" where
  "isoformat t =
     fmt 4 (year t) @ ''-'' @ fmt 2 (month t) @ ''-'' @ fmt 2 (day t) @ ''T'' @
     fmt 2 (hour t) @ '':'' @ fmt 2 (minute t) @ '':'' @ fmt 2 (second t) @
     (if microsecond t = 0 then [] else ''.'' @ fmt 6 (microsecond t))"

text \<open>\<^verbatim>\<open>strftime('%Y%m%d_%H%M%S')\<close>, for years of four digits (where all platforms agree
  on \<^verbatim>\<open>%Y\<close>).\<close>

definition strftime_id :: "datetime \<Rightarrow> string" where
  "strftime_id t =
     fmt 4 (year t) @ fmt 2 (month t) @ fmt 2 (day t) @ ''_'' @
     fmt 2 (hour t) @ fmt 2 (minute t) @ fmt 2 (second t)"

text \<open>Two readings fall in the same second when they agree on all fields but the
  microseconds.\<close>

definition same_second :: "datetime \<Rightarrow> datetime \<Rightarrow> bool" where
  "same_second a b \<longleftrightarrow>
     year a = year b \<and> month a = month b \<and> day a = day b \<and>
     hour a = hour b \<and> minute a = minute b \<and> second a = second b"

section \<open>Dicts and outcomes\<close>

text \<open>
  A Python dict keeps insertion order: it is an association list with \<^const>\<open>map_of\<close> as
  lookup. \<^verbatim>\<open>d[k] = v\<close> replaces the value of a present key where it stands and appends
  an absent key at the end.
\<close>

fun dict_set :: "('k \<times> 'v) list \<Rightarrow> 'k \<Rightarrow> 'v \<Rightarrow> ('k \<times> 'v) list" where
  "dict_set [] k v = [(k, v)]"
| "dict_set ((k', v') # d) k v = (if k' = k then (k, v) # d else (k', v') # dict_set d k v)"

definition dict_keys :: "('k \<times> 'v) list \<Rightarrow> 'k list" where
  "dict_keys d = map fst d"

datatype error = ValueError string | OSError string | KeyError string

datatype 'a outcome = Returned 'a | Raised error

section \<open>knowledge\_base.py: KnowledgeBase\<close>

record entry =
  topic :: string
  content :: pyval
  created_at :: string
  last_modified :: string

text \<open>A search result is \<^verbatim>\<open>{"id": entry_id, **entry}\<close>: the entry's four fields and the id.\<close>

record search_result =
  r_id :: string
  r_topic :: string
  r_content :: pyval
  r_created_at :: string
  r_last_modified :: string

record kb =
  storage_path :: string
  entries :: "(string \<times> entry) list"

text \<open>
  The files under the storage path. A file holds the JSON text of one entry, which is
  represented by the entry it encodes, or nothing after it was opened for writing and
  not written. Whether a path can be opened for writing is the environment's answer.
\<close>

datatype file_content = Empty | Json entry

record filesystem =
  files :: "string \<rightharpoonup> file_content"
  writable :: "string \<Rightarrow> bool"

definition KnowledgeBase :: "string \<Rightarrow> kb" where
  "KnowledgeBase path = \<lparr>storage_path = path, entries = []\<rparr>"

text \<open>\<^verbatim>\<open>os.path.join(a, b)\<close> on POSIX paths.\<close>

definition path_join :: "string \<Rightarrow> string \<Rightarrow> string" where
  "path_join a b =
     (if take 1 b = ''/'' then b
      else if a = [] \<or> last a = CHR ''/'' then a @ b
      else a @ ''/'' @ b)"

definition entry_file :: "kb \<Rightarrow> string \<Rightarrow> string" where
  "entry_file k entry_id = path_join (storage_path k) (entry_id @ ''.json'')"

definition save_entry :: "kb \<Rightarrow> filesystem \<Rightarrow> string \<Rightarrow> unit outcome \<times> filesystem" where
  "save_entry k fs entry_id =
     (let file_path = entry_file k entry_id in
      if \<not> writable fs file_path then (Raised (OSError file_path), fs)
      else case map_of (entries k) entry_id of
             None \<Rightarrow> (Raised (KeyError entry_id), fs\<lparr>files := (files fs)(file_path \<mapsto> Empty)\<rparr>)
           | Some e \<Rightarrow> (Returned (), fs\<lparr>files := (files fs)(file_path \<mapsto> Json e)\<rparr>))"

text \<open>\<open>add_entry\<close> reads the clock three times: \<open>t1\<close> for the id, \<open>t2\<close> for
  \<open>created_at\<close>, \<open>t3\<close> for \<open>last_modified\<close>. The entry is in memory before the file is
  written, so it stays there when the write raises.\<close>

definition add_entry ::
  "kb \<Rightarrow> filesystem \<Rightarrow> string \<Rightarrow> pyval \<Rightarrow> datetime \<Rightarrow> datetime \<Rightarrow> datetime
     \<Rightarrow> string outcome \<times> kb \<times> filesystem" where
  "add_entry k fs tp c t1 t2 t3 =
     (let entry_id = tp @ ''_'' @ strftime_id t1;
          k' = k\<lparr>entries := dict_set (entries k) entry_id
                  \<lparr>topic = tp, content = c,
                   created_at = isoformat t2, last_modified = isoformat t3\<rparr>\<rparr>
      in case save_entry k' fs entry_id of
           (Returned u, fs') \<Rightarrow> (Returned entry_id, k', fs')
         | (Raised e, fs') \<Rightarrow> (Raised e, k', fs'))"

definition get_entry :: "kb \<Rightarrow> string \<Rightarrow> entry option" where
  "get_entry k entry_id = map_of (entries k) entry_id"

definition update_entry ::
  "kb \<Rightarrow> filesystem \<Rightarrow> string \<Rightarrow> pyval \<Rightarrow> datetime \<Rightarrow> bool outcome \<times> kb \<times> filesystem" where
  "update_entry k fs entry_id c t =
     (case map_of (entries k) entry_id of
        None \<Rightarrow> (Returned False, k, fs)
      | Some e \<Rightarrow>
          (let k' = k\<lparr>entries := dict_set (entries k) entry_id
                         (e\<lparr>content := c, last_modified := isoformat t\<rparr>)\<rparr>
           in case save_entry k' fs entry_id of
                (Returned u, fs') \<Rightarrow> (Returned True, k', fs')
              | (Raised er, fs') \<Rightarrow> (Raised er, k', fs')))"

definition mk_result :: "string \<Rightarrow> entry \<Rightarrow> search_result" where
  "mk_result entry_id e =
     \<lparr>r_id = entry_id, r_topic = topic e, r_content = content e,
      r_created_at = created_at e, r_last_modified = last_modified e\<rparr>"

text \<open>The loop of \<open>search\<close> over \<^verbatim>\<open>self.entries.items()\<close>, with \<open>results\<close> as accumulator.\<close>

fun search_loop :: "(string \<times> entry) list \<Rightarrow> string \<Rightarrow> search_result list \<Rightarrow> search_result list" where
  "search_loop [] query results = results"
| "search_loop ((entry_id, e) # rest) query results =
     (if str_in (str_lower query) (str_lower (py_str (content e)))
      then search_loop rest query (results @ [mk_result entry_id e])
      else search_loop rest query results)"

definition search :: "kb \<Rightarrow> string \<Rightarrow> search_result list" where
  "search k query = search_loop (entries k) query []"

subsection \<open>Sequences of calls\<close>

datatype call =
    AddEntry string pyval datetime datetime datetime
  | GetEntry string
  | UpdateEntry string pyval datetime
  | Search string

text \<open>The state after a call. \<open>get_entry\<close> and \<open>search\<close> assign nothing.\<close>

fun step :: "kb \<times> filesystem \<Rightarrow> call \<Rightarrow> kb \<times> filesystem" where
  "step (k, fs) (AddEntry tp c t1 t2 t3) = snd (add_entry k fs tp c t1 t2 t3)"
| "step (k, fs) (GetEntry entry_id) = (k, fs)"
| "step (k, fs) (UpdateEntry entry_id c t) = snd (update_entry k fs entry_id c t)"
| "step (k, fs) (Search query) = (k, fs)"

text \<open>The clock readings a call makes: \<open>update_entry\<close> reads the clock only for a known id.\<close>

fun reads :: "kb \<times> filesystem \<Rightarrow> call \<Rightarrow> datetime list" where
  "reads (k, fs) (AddEntry tp c t1 t2 t3) = [t1, t2, t3]"
| "reads (k, fs) (GetEntry entry_id) = []"
| "reads (k, fs) (UpdateEntry entry_id c t) = (if map_of (entries k) entry_id = None then [] else [t])"
| "reads (k, fs) (Search query) = []"

fun run :: "kb \<times> filesystem \<Rightarrow> call list \<Rightarrow> kb \<times> filesystem" where
  "run s [] = s"
| "run s (c # cs) = run (step s c) cs"

fun clock_trace :: "kb \<times> filesystem \<Rightarrow> call list \<Rightarrow> datetime list" where
  "clock_trace s [] = []"
| "clock_trace s (c # cs) = reads s c @ clock_trace (step s c) cs"

section \<open>paper\_analyzer.py: PaperAnalyzer\<close>

record analysis =
  timestamp :: datetime
  key_findings :: "pyval list"
  methodology :: string
  conclusions :: string
  citations :: "pyval list"
  topics :: "pyval list"

definition analyze_paper :: "string \<Rightarrow> datetime \<Rightarrow> analysis" where
  "analyze_paper paper_content now =
     \<lparr>timestamp = now, key_findings = [], methodology = [], conclusions = [],
      citations = [], topics = []\<rparr>"

definition extract_citations :: "string \<Rightarrow> (string \<times> pyval) list list" where
  "extract_citations paper_content = []"

definition summarize_paper :: "string \<Rightarrow> int option \<Rightarrow> string" where
  "summarize_paper paper_content max_length = []"

definition identify_key_concepts :: "string \<Rightarrow> string list" where
  "identify_key_concepts paper_content = []"

section \<open>main.py: AIResearcher\<close>

text \<open>A paper or note record is a dict whose values are Python values or clock readings.\<close>

datatype tval = Val pyval | Time datetime

type_synonym pydict = "(string \<times> tval) list"

record topic_rec =
  description :: string
  topic_created_at :: datetime
  papers :: "pydict list"
  topic_notes :: "pydict list"

record researcher =
  start_time :: datetime
  research_topics :: "(string \<times> topic_rec) list"
  knowledge_base :: "(string \<times> pyval list) list"

definition AIResearcher :: "datetime \<Rightarrow> researcher" where
  "AIResearcher now = \<lparr>start_time = now, research_topics = [], knowledge_base = []\<rparr>"

definition add_research_topic :: "researcher \<Rightarrow> string \<Rightarrow> string \<Rightarrow> datetime \<Rightarrow> researcher" where
  "add_research_topic r tp descr now =
     r\<lparr>research_topics := dict_set (research_topics r) tp
          \<lparr>description = descr, topic_created_at = now, papers = [], topic_notes = []\<rparr>\<rparr>"

definition add_paper ::
  "researcher \<Rightarrow> string \<Rightarrow> pydict \<Rightarrow> datetime \<Rightarrow> unit outcome \<times> researcher" where
  "add_paper r tp paper_info now =
     (case map_of (research_topics r) tp of
        None \<Rightarrow> (Raised (ValueError (''Topic '' @ tp @ '' not found'')), r)
      | Some rec \<Rightarrow>
          (Returned (),
           r\<lparr>research_topics := dict_set (research_topics r) tp
                (rec\<lparr>papers := papers rec @ [dict_set paper_info ''added_at'' (Time now)]\<rparr>)\<rparr>))"

definition add_note ::
  "researcher \<Rightarrow> string \<Rightarrow> string \<Rightarrow> datetime \<Rightarrow> unit outcome \<times> researcher" where
  "add_note r tp note now =
     (case map_of (research_topics r) tp of
        None \<Rightarrow> (Raised (ValueError (''Topic '' @ tp @ '' not found'')), r)
      | Some rec \<Rightarrow>
          (Returned (),
           r\<lparr>research_topics := dict_set (research_topics r) tp
                (rec\<lparr>topic_notes := topic_notes rec @
                   [[(''content'', Val (PStr note)), (''created_at'', Time now)]]\<rparr>)\<rparr>))"

section \<open>Example data\<close>

text \<open>Clock readings on 3 November 2024, the night a local clock is set back an hour.\<close>

definition nov3 :: "nat \<Rightarrow> nat \<Rightarrow> nat \<Rightarrow> nat \<Rightarrow> datetime" where
  "nov3 h m s us =
     \<lparr>year = 2024, month = 11, day = 3, hour = h, minute = m, second = s, microsecond = us\<rparr>"

text \<open>A tracker with one topic that holds one paper.\<close>

definition tracker1 :: researcher where
  "tracker1 =
     snd (add_paper (add_research_topic (AIResearcher (nov3 1 30 0 5)) ''AI Ethics'' ''old''
                       (nov3 1 30 1 0))
            ''AI Ethics'' [(''title'', Val (PStr ''P''))] (nov3 1 30 2 0))"

section \<open>Facts about dicts\<close>

lemma map_of_dict_set: "map_of (dict_set d k v) = (map_of d)(k \<mapsto> v)"
  by (induction d k v rule: dict_set.induct) auto

lemma keys_dict_set_present:
  "map_of d k = Some v0 \<Longrightarrow> map fst (dict_set d k v) = map fst d"
  by (induction d k v rule: dict_set.induct) (auto split: if_splits)

lemma dict_set_absent:
  "map_of d k = None \<Longrightarrow> dict_set d k v = d @ [(k, v)]"
  by (induction d k v rule: dict_set.induct) (auto split: if_splits)

section \<open>PaperAnalyzer\<close>

text \<open>
  C9. For every input text, \<open>extract_citations\<close> returns the empty list,
  \<open>summarize_paper\<close> returns the empty string for every \<open>max_length\<close>, and
  \<open>identify_key_concepts\<close> returns the empty list; \<open>analyze_paper\<close> returns a record whose
  key findings, citations and topics are empty lists and whose methodology and conclusions
  are empty strings, whatever the input (two inputs analysed at the same clock reading give
  the same record).
\<close>

theorem analyzer_stubs:
  "extract_citations paper_content = [] \<and>
   summarize_paper paper_content max_length = [] \<and>
   identify_key_concepts paper_content = [] \<and>
   key_findings (analyze_paper paper_content now) = [] \<and>
   citations (analyze_paper paper_content now) = [] \<and>
   topics (analyze_paper paper_content now) = [] \<and>
   methodology (analyze_paper paper_content now) = [] \<and>
   conclusions (analyze_paper paper_content now) = [] \<and>
   analyze_paper paper_content now = analyze_paper other_content now"
  by (simp add: extract_citations_def summarize_paper_def identify_key_concepts_def
      analyze_paper_def)

section \<open>AIResearcher\<close>

text \<open>
  C7. Adding a topic under a name that is already tracked replaces the old record: the
  topic's description is the new one and its paper and note lists are empty, whatever the
  old record held. The name keeps its place among the topics and no other topic changes.
\<close>

theorem add_research_topic_replaces:
  assumes "map_of (research_topics r) tp = Some old"
  shows "map_of (research_topics (add_research_topic r tp descr now)) tp =
           Some \<lparr>description = descr, topic_created_at = now, papers = [], topic_notes = []\<rparr> \<and>
         map fst (research_topics (add_research_topic r tp descr now)) =
           map fst (research_topics r) \<and>
         (\<forall>other. other \<noteq> tp \<longrightarrow>
            map_of (research_topics (add_research_topic r tp descr now)) other =
            map_of (research_topics r) other)"
  using assms by (simp add: add_research_topic_def map_of_dict_set keys_dict_set_present)

theorem add_research_topic_replaces_witness:
  "map_of (research_topics tracker1) ''AI Ethics'' =
     Some \<lparr>description = ''old'', topic_created_at = nov3 1 30 1 0,
           papers = [[(''title'', Val (PStr ''P'')), (''added_at'', Time (nov3 1 30 2 0))]],
           topic_notes = []\<rparr> \<and>
   map_of (research_topics (add_research_topic tracker1 ''AI Ethics'' ''new'' (nov3 1 30 3 0)))
       ''AI Ethics'' =
     Some \<lparr>description = ''new'', topic_created_at = nov3 1 30 3 0,
           papers = [], topic_notes = []\<rparr>"
proof -
  have h: "map_of (research_topics tracker1) ''AI Ethics'' =
     Some \<lparr>description = ''old'', topic_created_at = nov3 1 30 1 0,
           papers = [[(''title'', Val (PStr ''P'')), (''added_at'', Time (nov3 1 30 2 0))]],
           topic_notes = []\<rparr>"
    by (simp add: tracker1_def add_paper_def add_research_topic_def AIResearcher_def)
  from add_research_topic_replaces [OF h] h show ?thesis by simp
qed

text \<open>
  C6. \<open>add_paper\<close> and \<open>add_note\<close> on a name that is not tracked raise the not-found
  error and leave the tracker as it was. On a tracked name each call returns, appends
  exactly one record to the topic's paper list (note list), which grows by one, and
  leaves every other topic and the order of the topics unchanged.
\<close>

theorem add_paper_add_note:
  "(map_of (research_topics r) tp = None \<longrightarrow>
      add_paper r tp paper_info now =
        (Raised (ValueError (''Topic '' @ tp @ '' not found'')), r) \<and>
      add_note r tp note now =
        (Raised (ValueError (''Topic '' @ tp @ '' not found'')), r)) \<and>
   (map_of (research_topics r) tp = Some rec \<longrightarrow>
      fst (add_paper r tp paper_info now) = Returned () \<and>
      map_of (research_topics (snd (add_paper r tp paper_info now))) tp =
        Some (rec\<lparr>papers := papers rec @ [dict_set paper_info ''added_at'' (Time now)]\<rparr>) \<and>
      length (papers rec @ [dict_set paper_info ''added_at'' (Time now)]) =
        length (papers rec) + 1 \<and>
      (\<forall>other. other \<noteq> tp \<longrightarrow>
         map_of (research_topics (snd (add_paper r tp paper_info now))) other =
         map_of (research_topics r) other) \<and>
      map fst (research_topics (snd (add_paper r tp paper_info now))) =
        map fst (research_topics r) \<and>
      fst (add_note r tp note now) = Returned () \<and>
      map_of (research_topics (snd (add_note r tp note now))) tp =
        Some (rec\<lparr>topic_notes := topic_notes rec @
                [[(''content'', Val (PStr note)), (''created_at'', Time now)]]\<rparr>) \<and>
      length (topic_notes rec @ [[(''content'', Val (PStr note)), (''created_at'', Time now)]]) =
        length (topic_notes rec) + 1 \<and>
      (\<forall>other. other \<noteq> tp \<longrightarrow>
         map_of (research_topics (snd (add_note r tp note now))) other =
         map_of (research_topics r) other) \<and>
      map fst (research_topics (snd (add_note r tp note now))) =
        map fst (research_topics r))"
  by (simp add: add_paper_def add_note_def map_of_dict_set keys_dict_set_present)

theorem add_paper_add_note_witness:
  "map_of (research_topics tracker1) ''ML'' = None \<and>
   add_paper tracker1 ''ML'' [] (nov3 1 30 4 0) =
     (Raised (ValueError ''Topic ML not found''), tracker1) \<and>
   add_note tracker1 ''ML'' ''n'' (nov3 1 30 4 0) =
     (Raised (ValueError ''Topic ML not found''), tracker1) \<and>
   map_of (research_topics tracker1) ''AI Ethics'' =
     Some \<lparr>description = ''old'', topic_created_at = nov3 1 30 1 0,
           papers = [[(''title'', Val (PStr ''P'')), (''added_at'', Time (nov3 1 30 2 0))]],
           topic_notes = []\<rparr> \<and>
   map_of (research_topics
       (snd (add_paper tracker1 ''AI Ethics'' [(''title'', Val (PStr ''Q''))] (nov3 1 30 4 0))))
       ''AI Ethics'' =
     Some \<lparr>description = ''old'', topic_created_at = nov3 1 30 1 0,
           papers = [[(''title'', Val (PStr ''P'')), (''added_at'', Time (nov3 1 30 2 0))],
                     [(''title'', Val (PStr ''Q'')), (''added_at'', Time (nov3 1 30 4 0))]],
           topic_notes = []\<rparr> \<and>
   map_of (research_topics (snd (add_note tracker1 ''AI Ethics'' ''n'' (nov3 1 30 4 0))))
       ''AI Ethics'' =
     Some \<lparr>description = ''old'', topic_created_at = nov3 1 30 1 0,
           papers = [[(''title'', Val (PStr ''P'')), (''added_at'', Time (nov3 1 30 2 0))]],
           topic_notes = [[(''content'', Val (PStr ''n'')), (''created_at'', Time (nov3 1 30 4 0))]]\<rparr>"
proof -
  have absent: "map_of (research_topics tracker1) ''ML'' = None"
    by (simp add: tracker1_def add_paper_def add_research_topic_def AIResearcher_def)
  have present: "map_of (research_topics tracker1) ''AI Ethics'' =
     Some \<lparr>description = ''old'', topic_created_at = nov3 1 30 1 0,
           papers = [[(''title'', Val (PStr ''P'')), (''added_at'', Time (nov3 1 30 2 0))]],
           topic_notes = []\<rparr>"
    by (simp add: tracker1_def add_paper_def add_research_topic_def AIResearcher_def)
  from absent present
    add_paper_add_note [of tracker1 "''ML''" "[]" "nov3 1 30 4 0" "''n''"]
    add_paper_add_note [of tracker1 "''AI Ethics''" "[(''title'', Val (PStr ''Q''))]"
      "nov3 1 30 4 0" "''n''"]
  show ?thesis by simp
qed

end
